theory Spec2Isabelle
  imports Main
begin

section \<open>Uplink configuration manager (api/code/uplink.go)\<close>

text \<open>
  A shallow embedding of the Go routines that manage the WPA supplicant and PPP uplink
  configuration.  Go errors are their message strings; a function returning \<open>error\<close>
  returns \<open>error option\<close>, with \<open>None\<close> for \<open>nil\<close>.  Go strings are byte strings.
\<close>

type_synonym error = string

subsection \<open>Library routines the code calls\<close>

text \<open>\<open>strings.Contains(s, "\n")\<close>: the one-byte substring occurs in \<open>s\<close>.\<close>

definition contains_newline :: "string \<Rightarrow> bool" where
  "contains_newline s = (CHR 0x0A \<in> set s)"

text \<open>
  \<open>strconv.Atoi\<close> on a platform whose \<open>int\<close> has 64 bits: an optional sign, then at
  least one decimal digit and nothing else (no underscore in base 10); a value outside
  the range of \<open>int\<close> is a range error.
\<close>

datatype NumError = ErrSyntax | ErrRange

definition is_digit :: "char \<Rightarrow> bool" where
  "is_digit ch = (ch \<in> set ''0123456789'')"

definition digit_val :: "char \<Rightarrow> int" where
  "digit_val ch = int (of_char ch) - 48"

definition Atoi :: "string \<Rightarrow> NumError + int" where
  "Atoi s0 =
     (let neg = (case s0 of [] \<Rightarrow> False | ch # _ \<Rightarrow> ch = CHR ''-'');
          s = (case s0 of [] \<Rightarrow> [] | ch # r \<Rightarrow> if ch = CHR ''-'' \<or> ch = CHR ''+'' then r else s0)
      in if s = [] then Inl ErrSyntax
         else if \<not> list_all is_digit s then Inl ErrSyntax
         else let n = foldl (\<lambda>n ch. n * 10 + digit_val ch) 0 s;
                  v = (if neg then - n else n)
              in if v < - (2 ^ 63) \<or> 2 ^ 63 - 1 < v then Inl ErrRange else Inr v)"

text \<open>
  \<open>strings.Split(s, " ")\<close>, for a separator of one byte: cut at the first separator,
  keep the part before it, go on with the rest; the last piece is what is left.  The
  result is never empty.
\<close>

function Split :: "string \<Rightarrow> char \<Rightarrow> string list" where
  "Split s sep =
     (if sep \<in> set s
      then takeWhile (\<lambda>ch. ch \<noteq> sep) s # Split (tl (dropWhile (\<lambda>ch. ch \<noteq> sep) s)) sep
      else [s])"
  by pat_completeness auto
termination
proof (relation "measure (\<lambda>(s, sep). length s)")
  show "wf (measure (\<lambda>(s, sep). length s))" by simp
next
  fix s :: string and sep :: char
  assume "sep \<in> set s"
  then have "dropWhile (\<lambda>ch. ch \<noteq> sep) s \<noteq> []" by simp
  then have "length (tl (dropWhile (\<lambda>ch. ch \<noteq> sep) s)) < length (dropWhile (\<lambda>ch. ch \<noteq> sep) s)"
    by simp
  also have "\<dots> \<le> length s" by (rule length_dropWhile_le)
  finally show "((tl (dropWhile (\<lambda>ch. ch \<noteq> sep) s), sep), (s, sep)) \<in> measure (\<lambda>(s, sep). length s)"
    by simp
qed

declare Split.simps [simp del]

text \<open>
  The pattern \<^verbatim>\<open>^([0-9A-Fa-f]{2}[:-]){5}([0-9A-Fa-f]{2})$\<close> of the BSSID check:
  \<open>mac_groups n\<close> matches \<open>n\<close> groups of two hex digits and a separator, then two hex
  digits and the end of the text.
\<close>

definition is_hex :: "char \<Rightarrow> bool" where
  "is_hex ch = (ch \<in> set ''0123456789ABCDEFabcdef'')"

fun mac_groups :: "nat \<Rightarrow> string \<Rightarrow> bool" where
  "mac_groups 0 s = (case s of [a, b] \<Rightarrow> is_hex a \<and> is_hex b | _ \<Rightarrow> False)"
| "mac_groups (Suc n) s =
     (case s of
        a # b # c # r \<Rightarrow> is_hex a \<and> is_hex b \<and> (c = CHR '':'' \<or> c = CHR ''-'') \<and> mac_groups n r
      | _ \<Rightarrow> False)"

definition match_mac :: "string \<Rightarrow> bool" where
  "match_mac s = mac_groups (Suc (Suc (Suc (Suc (Suc 0))))) s"

subsection \<open>WPA supplicant support: data and validation\<close>

record WPANetwork =
  Disabled :: bool
  Password :: string
  SSID :: string
  KeyMgmt :: string
  Priority :: string
  BSSID :: string

record WPAIface =
  Iface :: string
  Enabled :: bool
  Networks :: "WPANetwork list"

record WPASupplicantConfig =
  WPAs :: "WPAIface list"

text \<open>The loop over the parts of \<open>KeyMgmt\<close>: the first part that is none of the three
  names ends the validation with an error naming it.\<close>

fun check_parts :: "string list \<Rightarrow> error option" where
  "check_parts [] = None"
| "check_parts (part # parts) =
     (if part = ''WPA-PSK'' then check_parts parts
      else if part = ''WPA-PSK-SHA256'' then check_parts parts
      else if part = ''SAE'' then check_parts parts
      else Some (''KeyMgmt field has invalid field '' @ part))"

definition WPANetwork_Validate :: "WPANetwork \<Rightarrow> error option" where
  "WPANetwork_Validate n =
     (if contains_newline (Password n) then Some ''Password field contains newline characters''
      else if contains_newline (SSID n) then Some ''SSID field contains newline characters''
      else if Priority n \<noteq> '''' \<and> isl (Atoi (Priority n))
        then Some ''Priority field must contain numeric value''
      else if BSSID n \<noteq> '''' \<and> \<not> match_mac (BSSID n)
        then Some ''BSSID field must be a valid MAC address''
      else if KeyMgmt n = ''''
        then Some ''KeyMgmt field must be set (WPA-PSK WPA-PSK-SHA256 or WPA-PSK WPA-PSK-SHA256 SAE)''
      else check_parts (Split (KeyMgmt n) CHR '' ''))"

text \<open>
  The specification's wording of an accepted \<open>KeyMgmt\<close>: a non-empty sequence of names
  from WPA-PSK, WPA-PSK-SHA256 and SAE, separated by single spaces.
\<close>

definition key_mgmt_name :: "string \<Rightarrow> bool" where
  "key_mgmt_name t = (t = ''WPA-PSK'' \<or> t = ''WPA-PSK-SHA256'' \<or> t = ''SAE'')"

inductive key_mgmt_seq :: "string \<Rightarrow> bool" where
  one: "key_mgmt_name t \<Longrightarrow> key_mgmt_seq t"
| more: "key_mgmt_name t \<Longrightarrow> key_mgmt_seq r \<Longrightarrow> key_mgmt_seq (t @ CHR '' '' # r)"

subsection \<open>The interface registry's records\<close>

text \<open>
  Modelled from the spec: the type \<open>InterfaceConfig\<close> is declared outside this file; the
  registry's records carry \<open>Name\<close>, \<open>Type\<close>, \<open>Subtype\<close> and \<open>Enabled\<close>, the four fields
  the uplink code reads.
\<close>

record InterfaceConfig =
  Name :: string
  Type :: string
  Subtype :: string
  Enabled :: bool

fun isWifiUplinkIfaceEnabled :: "string \<Rightarrow> InterfaceConfig list \<Rightarrow> bool" where
  "isWifiUplinkIfaceEnabled nm [] = False"
| "isWifiUplinkIfaceEnabled nm (iface # interfaces) =
     (if Name iface = nm
      then (if Type iface = ''Uplink'' \<and> Subtype iface = ''wifi''
            then InterfaceConfig.Enabled iface else False)
      else isWifiUplinkIfaceEnabled nm interfaces)"

fun isPPPUplinkIfaceEnabled :: "string \<Rightarrow> InterfaceConfig list \<Rightarrow> bool" where
  "isPPPUplinkIfaceEnabled nm [] = False"
| "isPPPUplinkIfaceEnabled nm (iface # interfaces) =
     (if Name iface = nm
      then (if Type iface = ''Uplink'' \<and> Subtype iface = ''ppp''
            then InterfaceConfig.Enabled iface else False)
      else isPPPUplinkIfaceEnabled nm interfaces)"

subsection \<open>PPP support: data and validation\<close>

record PPPIface =
  Iface :: string
  Enabled :: bool
  Username :: string
  Secret :: string
  VLAN :: string
  MTU :: string

record PPPConfig =
  PPPs :: "PPPIface list"

definition PPPIface_Validate :: "PPPIface \<Rightarrow> error option" where
  "PPPIface_Validate p =
     (if PPPIface.Iface p = '''' then Some ''Iface field empty''
      else if Username p = '''' then Some ''Username field empty''
      else if contains_newline (Username p) then Some ''Username field contains newline characters''
      else if contains_newline (Secret p) then Some ''Secret field contains newline characters''
      else if VLAN p \<noteq> '''' \<and> isl (Atoi (VLAN p))
        then Some ''VLAN field must contain numeric value''
      else if MTU p \<noteq> '''' \<and> (case Atoi (MTU p) of Inl err \<Rightarrow> True | Inr v \<Rightarrow> v < 0)
        then Some ''MTU field must contain numeric positive value''
      else None)"

subsection \<open>Text templates\<close>

text \<open>
  The part of Go's \<open>text/template\<close> that the three templates of this file use: literal
  text, the value of a field of the current value (\<^verbatim>\<open>{{.F}}\<close>), a conditional on a field
  or on its negation (\<^verbatim>\<open>{{if .F}}\<close>, \<^verbatim>\<open>{{if not .F}}\<close>) and an iteration over a slice field
  (\<^verbatim>\<open>{{range .F}}\<close>).  Values are strings, booleans, slices and structs; a struct is the
  list of its fields.  A field that the struct does not have is an execution error.
  The templates print string and boolean fields only; printing a slice or a struct is left
  out and is an error here.
\<close>

datatype tval = VString string | VBool bool | VSlice "tval list" | VStruct "(string \<times> tval) list"

datatype pipeline = Field string | NotField string

datatype node = Text string | Print string | If pipeline "node list" | Range string "node list"

fun evalField :: "string \<Rightarrow> tval \<Rightarrow> error + tval" where
  "evalField f (VStruct fs) =
     (case map_of fs f of
        Some v \<Rightarrow> Inr v
      | None \<Rightarrow> Inl (''can not evaluate field '' @ f))"
| "evalField f v = Inl (''can not evaluate field '' @ f)"

fun isTrue :: "tval \<Rightarrow> bool" where
  "isTrue (VString s) = (s \<noteq> [])"
| "isTrue (VBool b) = b"
| "isTrue (VSlice vs) = (vs \<noteq> [])"
| "isTrue (VStruct fs) = True"

fun printValue :: "tval \<Rightarrow> error + string" where
  "printValue (VString s) = Inr s"
| "printValue (VBool b) = Inr (if b then ''true'' else ''false'')"
| "printValue v = Inl ''value not printed by this model''"

fun evalPipeline :: "pipeline \<Rightarrow> tval \<Rightarrow> error + bool" where
  "evalPipeline (Field f) dot = (case evalField f dot of Inl err \<Rightarrow> Inl err | Inr v \<Rightarrow> Inr (isTrue v))"
| "evalPipeline (NotField f) dot =
     (case evalField f dot of Inl err \<Rightarrow> Inl err | Inr v \<Rightarrow> Inr (\<not> isTrue v))"

text \<open>The output of consecutive steps, up to the first error.\<close>

fun collect :: "(error + string) list \<Rightarrow> error + string" where
  "collect [] = Inr []"
| "collect (r # rs) =
     (case r of
        Inl err \<Rightarrow> Inl err
      | Inr out \<Rightarrow> (case collect rs of Inl err \<Rightarrow> Inl err | Inr outs \<Rightarrow> Inr (out @ outs)))"

fun Execute :: "node list \<Rightarrow> tval \<Rightarrow> error + string" where
  "Execute [] dot = Inr []"
| "Execute (Text t # nodes) dot = collect [Inr t, Execute nodes dot]"
| "Execute (Print f # nodes) dot =
     collect [case evalField f dot of Inl err \<Rightarrow> Inl err | Inr v \<Rightarrow> printValue v,
              Execute nodes dot]"
| "Execute (If c body # nodes) dot =
     collect [case evalPipeline c dot of
                Inl err \<Rightarrow> Inl err
              | Inr b \<Rightarrow> if b then Execute body dot else Inr [],
              Execute nodes dot]"
| "Execute (Range f body # nodes) dot =
     collect [case evalField f dot of
                Inl err \<Rightarrow> Inl err
              | Inr (VSlice elems) \<Rightarrow> collect (map (\<lambda>elem. Execute body elem) elems)
              | Inr _ \<Rightarrow> Inl ''range can not iterate over value'',
              Execute nodes dot]"

text \<open>Go values as template values.\<close>

definition val_WPANetwork :: "WPANetwork \<Rightarrow> tval" where
  "val_WPANetwork n =
     VStruct [(''Disabled'', VBool (Disabled n)), (''Password'', VString (Password n)),
              (''SSID'', VString (SSID n)), (''KeyMgmt'', VString (KeyMgmt n)),
              (''Priority'', VString (Priority n)), (''BSSID'', VString (BSSID n))]"

definition val_WPAIface :: "WPAIface \<Rightarrow> tval" where
  "val_WPAIface w =
     VStruct [(''Iface'', VString (WPAIface.Iface w)), (''Enabled'', VBool (WPAIface.Enabled w)),
              (''Networks'', VSlice (map val_WPANetwork (Networks w)))]"

definition val_PPPIface :: "PPPIface \<Rightarrow> tval" where
  "val_PPPIface p =
     VStruct [(''Iface'', VString (PPPIface.Iface p)), (''Enabled'', VBool (PPPIface.Enabled p)),
              (''Username'', VString (Username p)), (''Secret'', VString (Secret p)),
              (''VLAN'', VString (VLAN p)), (''MTU'', VString (MTU p))]"

definition val_PPPConfig :: "PPPConfig \<Rightarrow> tval" where
  "val_PPPConfig config = VStruct [(''PPPs'', VSlice (map val_PPPIface (PPPs config)))]"

subsection \<open>The world outside: files, registry and plugins\<close>

text \<open>
  The state holds what the code reads and writes: the two JSON documents, kept as the
  collections they encode (\<open>None\<close> for a file that is missing or does not parse), the
  other files by path, and the calls made to the interface registry and to the plugin
  manager, in order.  Keeping a document as its collection takes \<open>json.Unmarshal\<close> to
  give back what \<open>json.MarshalIndent\<close> was given, which holds for strings that are valid
  UTF-8, as the strings decoded from a request or from a stored document are.

  The environment holds what the code does not decide: \<open>TEST_PREFIX\<close>, the answers of
  \<open>updateInterfaceType\<close> and \<open>enablePlugin\<close> (both defined outside this file), whether
  \<open>ioutil.WriteFile\<close> fails for a path (a failed write leaves the file as it was), and
  the parse of a WPA template whose interface name holds template actions.
\<close>

datatype call =
  UpdateInterfaceType string string string bool
| EnablePlugin string
| RestartPlugin string

record env =
  TEST_PREFIX :: string
  updateInterfaceType :: "string \<Rightarrow> string \<Rightarrow> string \<Rightarrow> bool \<Rightarrow> error + InterfaceConfig list"
  enablePlugin :: "string \<Rightarrow> bool"
  write_error :: "string \<Rightarrow> error option"
  parse_with_actions :: "string \<Rightarrow> error + node list"

record state =
  wpa_json :: "WPASupplicantConfig option"
  ppp_json :: "PPPConfig option"
  files :: "string \<Rightarrow> string option"
  calls :: "call list"

datatype response = Done | HttpError string nat

definition WriteFile :: "env \<Rightarrow> string \<Rightarrow> string \<Rightarrow> state \<Rightarrow> error option \<times> state" where
  "WriteFile e path data s =
     (case write_error e path of
        Some err \<Rightarrow> (Some err, s)
      | None \<Rightarrow> (None, s\<lparr>files := (files s)(path \<mapsto> data)\<rparr>))"

definition log_call :: "call \<Rightarrow> state \<Rightarrow> state" where
  "log_call c s = s\<lparr>calls := calls s @ [c]\<rparr>"

definition WpaConfigPath :: "env \<Rightarrow> string" where
  "WpaConfigPath e = TEST_PREFIX e @ ''/configs/wifi_uplink/wpa.json''"

definition PPPConfigPath :: "env \<Rightarrow> string" where
  "PPPConfigPath e = TEST_PREFIX e @ ''/configs/ppp/ppp.json''"

subsection \<open>WPA supplicant support: rendering and merging\<close>

text \<open>
  The template of \<open>writeWPAs\<close> is built from the interface name: the name is part of the
  template text.  A name without the action delimiter \<^verbatim>\<open>{{\<close> is literal text of the first
  text node.  What the parser makes of a name with a delimiter is not modelled: it is
  taken from the environment.
\<close>

fun has_left_delim :: "string \<Rightarrow> bool" where
  "has_left_delim (a # b # r) = ((a = CHR ''{'' \<and> b = CHR ''{'') \<or> has_left_delim (b # r))"
| "has_left_delim s = False"

definition wpa_template_text :: "string \<Rightarrow> string" where
  \<open>wpa_template_text iface =
     ''# Note this is an autogenerated file\<newline>      ctrl_interface=DIR=/var/run/wpa_supplicant_''
     @ iface @ ''\<newline>      ''\<close>

definition wpa_network_block :: "node list" where
  \<open>wpa_network_block =
    [Text (''\<newline>      ''),
     If (NotField ''Disabled'')
       [Text (''\<newline>      network={\<newline>      '' @ [CHR 0x09] @ ''ssid="''),
        Print ''SSID'',
        Text (''"\<newline>      '' @ [CHR 0x09] @ ''psk="''),
        Print ''Password'',
        Text (''"\<newline>      '' @ [CHR 0x09]),
        If (Field ''Priority'') [Text (''priority=''), Print ''Priority''],
        Text (''\<newline>      '' @ [CHR 0x09]),
        If (Field ''BSSID'') [Text (''bssid=''), Print ''BSSID''],
        Text (''\<newline>        key_mgmt=''),
        Print ''KeyMgmt'',
        Text (''\<newline>      }\<newline>      '')],
     Text (''\<newline>      '')]\<close>

definition wpa_template_actions :: "node list" where
  "wpa_template_actions = [Range ''Networks'' wpa_network_block]"

definition wpa_template :: "env \<Rightarrow> string \<Rightarrow> error + node list" where
  "wpa_template e iface =
     (if has_left_delim iface then parse_with_actions e iface
      else Inr (Text (wpa_template_text iface) # wpa_template_actions))"

fun writeWPAs_loop :: "env \<Rightarrow> WPAIface list \<Rightarrow> state \<Rightarrow> error option \<times> state" where
  "writeWPAs_loop e [] s = (None, s)"
| "writeWPAs_loop e (wpa # rest) s =
     (if \<not> WPAIface.Enabled wpa then writeWPAs_loop e rest s
      else case wpa_template e (WPAIface.Iface wpa) of
        Inl err \<Rightarrow> (Some err, s)
      | Inr tmpl \<Rightarrow>
         (case Execute tmpl (val_WPAIface wpa) of
            Inl err \<Rightarrow> (Some err, s)
          | Inr result \<Rightarrow>
             (case WriteFile e (TEST_PREFIX e @ ''/configs/wifi_uplink/wpa_'' @ WPAIface.Iface wpa @ ''.conf'')
                     result s of
                (Some err, s') \<Rightarrow> (Some err, s')
              | (None, s') \<Rightarrow> writeWPAs_loop e rest s')))"

definition writeWPAs :: "env \<Rightarrow> InterfaceConfig list \<Rightarrow> WPASupplicantConfig \<Rightarrow> state \<Rightarrow> error option \<times> state" where
  "writeWPAs e interfaces config s = writeWPAs_loop e (WPAs config) s"

definition loadWpaConfigLocked :: "state \<Rightarrow> WPASupplicantConfig \<times> error option" where
  "loadWpaConfigLocked s =
     (case wpa_json s of
        None \<Rightarrow> (\<lparr>WPAs = []\<rparr>, Some ''wpa.json: no such file or invalid JSON'')
      | Some config \<Rightarrow> (config, None))"

text \<open>
  The scan of \<open>insertWpaConfigAndSave\<close>: \<open>wpas\<close> is the slice built so far; the result is
  the slice and \<open>found\<close>.  The \<open>break\<close> at the match ends the loop: the records after the
  match are not visited.
\<close>

fun scan_wpas :: "InterfaceConfig list \<Rightarrow> WPAIface \<Rightarrow> WPAIface list \<Rightarrow> WPAIface list \<Rightarrow> WPAIface list \<times> bool" where
  "scan_wpas interfaces new_wpa wpas [] = (wpas, False)"
| "scan_wpas interfaces new_wpa wpas (wpa # rest) =
     (if WPAIface.Iface wpa = WPAIface.Iface new_wpa then (wpas @ [new_wpa], True)
      else scan_wpas interfaces new_wpa
             (wpas @ [wpa\<lparr>WPAIface.Enabled := isWifiUplinkIfaceEnabled (WPAIface.Iface wpa) interfaces\<rparr>])
             rest)"

definition merge_wpas :: "InterfaceConfig list \<Rightarrow> WPAIface \<Rightarrow> WPAIface list \<Rightarrow> WPAIface list" where
  "merge_wpas interfaces new_wpa stored =
     (case scan_wpas interfaces new_wpa [] stored of
        (wpas, found) \<Rightarrow>
          if \<not> found \<and> WPAIface.Iface new_wpa \<noteq> '''' then wpas @ [new_wpa] else wpas)"

definition insertWpaConfigAndSave :: "env \<Rightarrow> InterfaceConfig list \<Rightarrow> WPAIface \<Rightarrow> state \<Rightarrow> error option \<times> state" where
  "insertWpaConfigAndSave e interfaces new_wpa s =
     (let config = (case loadWpaConfigLocked s of
                      (loaded, None) \<Rightarrow> loaded
                    | (loaded, Some err) \<Rightarrow> \<lparr>WPAs = []\<rparr>);
          config = config\<lparr>WPAs := merge_wpas interfaces new_wpa (WPAs config)\<rparr>
      in case write_error e (WpaConfigPath e) of
           Some err \<Rightarrow> (Some err, s)
         | None \<Rightarrow> writeWPAs e interfaces config (s\<lparr>wpa_json := Some config\<rparr>))"

text \<open>
  The pattern \<^verbatim>\<open>^[a-zA-Z0-9]*(\.[a-zA-Z0-9]*)*$\<close> of the interface name check: letters and
  digits, then any number of groups of a dot and letters and digits, up to the end.
\<close>

definition is_alnum :: "char \<Rightarrow> bool" where
  "is_alnum ch = (ch \<in> set ''abcdefghijklmnopqrstuvwxyzABCDEFGHIJKLMNOPQRSTUVWXYZ0123456789'')"

function match_iface :: "string \<Rightarrow> bool" where
  "match_iface s =
     (case dropWhile is_alnum s of
        [] \<Rightarrow> True
      | ch # r \<Rightarrow> ch = CHR ''.'' \<and> match_iface r)"
  by pat_completeness auto
termination
proof (relation "measure length")
  show "wf (measure length)" by simp
next
  fix s :: string and ch :: char and r :: string
  assume "dropWhile is_alnum s = ch # r"
  then have "Suc (length r) = length (dropWhile is_alnum s)" by simp
  also have "\<dots> \<le> length s" by (rule length_dropWhile_le)
  finally show "(r, s) \<in> measure length" by simp
qed

declare match_iface.simps [simp del]

text \<open>
  The loop of \<open>updateWpaSupplicantConfig\<close> over \<open>wpa.Networks\<close>.  \<open>network\<close> is the loop's
  copy of the element: the default written to its \<open>KeyMgmt\<close> is seen by \<open>Validate\<close> and
  does not reach \<open>wpa.Networks\<close>.  The loop yields \<open>enabled\<close>, or the first error.
\<close>

fun validate_networks :: "bool \<Rightarrow> WPANetwork list \<Rightarrow> error + bool" where
  "validate_networks enabled [] = Inr enabled"
| "validate_networks enabled (network # rest) =
     (let enabled = (if \<not> enabled then (if Disabled network = False then True else enabled) else enabled);
          network = (if KeyMgmt network = '''' then network\<lparr>KeyMgmt := ''WPA-PSK WPA-PSK-SHA256''\<rparr>
                     else network)
      in case WPANetwork_Validate network of
           Some err \<Rightarrow> Inl err
         | None \<Rightarrow> validate_networks enabled rest)"

text \<open>The handler; \<open>body\<close> is what decoding the request's JSON gave.\<close>

definition updateWpaSupplicantConfig :: "env \<Rightarrow> error + WPAIface \<Rightarrow> state \<Rightarrow> response \<times> state" where
  "updateWpaSupplicantConfig e body s =
     (case body of
        Inl err \<Rightarrow> (HttpError err 400, s)
      | Inr wpa \<Rightarrow>
         if \<not> match_iface (WPAIface.Iface wpa) then (HttpError ''Invalid iface name'' 400, s)
         else case validate_networks False (Networks wpa) of
           Inl err \<Rightarrow> (HttpError (''Failed to validate network '' @ err) 400, s)
         | Inr enabled \<Rightarrow>
            (let s1 = log_call (UpdateInterfaceType (WPAIface.Iface wpa) ''Uplink'' ''wifi'' (WPAIface.Enabled wpa)) s
             in case updateInterfaceType e (WPAIface.Iface wpa) ''Uplink'' ''wifi'' (WPAIface.Enabled wpa) of
                  Inl err \<Rightarrow> (HttpError err 400, s1)
                | Inr interfaces \<Rightarrow>
                   (case insertWpaConfigAndSave e interfaces wpa s1 of
                      (Some err, s2) \<Rightarrow> (HttpError err 400, s2)
                    | (None, s2) \<Rightarrow>
                       (let started = (if enabled then enablePlugin e ''WIFI-UPLINK'' else False);
                            s3 = (if enabled then log_call (EnablePlugin ''WIFI-UPLINK'') s2 else s2);
                            s4 = (if \<not> started then log_call (RestartPlugin ''WIFI-UPLINK'') s3 else s3)
                        in (Done, s4)))))"

subsection \<open>PPP support: rendering, merging and the handler\<close>

definition chap_secrets_template :: "node list" where
  \<open>chap_secrets_template =
    [Text (''# Note this is an autogenerated file\<newline>    # Secrets for authentication using CHAP\<newline>    # client        server  secret                  IP addresses\<newline>\<newline>    ''),
     Range ''PPPs''
       [Text (''\<newline>      "''), Print ''Username'', Text (''" * "''), Print ''Secret'',
        Text (''"\<newline>    '')],
     Text (''\<newline>    '')]\<close>

definition provider_template :: "node list" where
  \<open>provider_template =
    [Text (''# Note this is an autogenerated file\<newline>      # Minimalistic default options file for DSL/PPPoE connections\<newline>      noipdefault\<newline>      defaultroute\<newline>      replacedefaultroute\<newline>      persist\<newline>      ''),
     If (Field ''MTU'') [Text (''mtu ''), Print ''MTU''],
     Text (''\<newline>      plugin rp-pppoe.so ''),
     Print ''Iface'',
     If (Field ''VLAN'') [Text (''.''), Print ''VLAN''],
     Text (''\<newline>      ''),
     If (Field ''BSSID'') [Text (''bssid=''), Print ''BSSID''],
     Text (''\<newline>      plugin rp-pppoe.so ''),
     Print ''Iface'',
     Text (''.''),
     Print ''VLAN'',
     Text (''\<newline>      user "''),
     Print ''Username'',
     Text (''"\<newline>      '')]\<close>

definition chap_secrets_path :: "env \<Rightarrow> string" where
  "chap_secrets_path e = TEST_PREFIX e @ ''/etc/ppp/chap-secrets''"

definition provider_path :: "env \<Rightarrow> PPPIface \<Rightarrow> string" where
  "provider_path e ppp = TEST_PREFIX e @ ''/etc/ppp/provider_'' @ PPPIface.Iface ppp"

fun writePPP_loop :: "env \<Rightarrow> PPPIface list \<Rightarrow> state \<Rightarrow> error option \<times> state" where
  "writePPP_loop e [] s = (None, s)"
| "writePPP_loop e (ppp # rest) s =
     (case Execute provider_template (val_PPPIface ppp) of
        Inl err \<Rightarrow> (Some err, s)
      | Inr result \<Rightarrow>
         (case WriteFile e (provider_path e ppp) result s of
            (Some err, s') \<Rightarrow> (Some err, s')
          | (None, s') \<Rightarrow> writePPP_loop e rest s'))"

definition writePPP :: "env \<Rightarrow> InterfaceConfig list \<Rightarrow> PPPConfig \<Rightarrow> state \<Rightarrow> error option \<times> state" where
  "writePPP e interfaces config s =
     (case Execute chap_secrets_template (val_PPPConfig config) of
        Inl err \<Rightarrow> (Some err, s)
      | Inr result \<Rightarrow>
         (case WriteFile e (chap_secrets_path e) result s of
            (Some err, s') \<Rightarrow> (Some err, s')
          | (None, s') \<Rightarrow> writePPP_loop e (PPPs config) s'))"

definition loadPPPConfigLocked :: "state \<Rightarrow> PPPConfig \<times> error option" where
  "loadPPPConfigLocked s =
     (case ppp_json s of
        None \<Rightarrow> (\<lparr>PPPs = []\<rparr>, Some ''ppp.json: no such file or invalid JSON'')
      | Some config \<Rightarrow> (config, None))"

fun scan_ppps :: "InterfaceConfig list \<Rightarrow> PPPIface \<Rightarrow> PPPIface list \<Rightarrow> PPPIface list \<Rightarrow> PPPIface list \<times> bool" where
  "scan_ppps interfaces new_ppp ppps [] = (ppps, False)"
| "scan_ppps interfaces new_ppp ppps (ppp # rest) =
     (if PPPIface.Iface ppp = PPPIface.Iface new_ppp then (ppps @ [new_ppp], True)
      else scan_ppps interfaces new_ppp
             (ppps @ [ppp\<lparr>PPPIface.Enabled := isPPPUplinkIfaceEnabled (PPPIface.Iface ppp) interfaces\<rparr>])
             rest)"

definition merge_ppps :: "InterfaceConfig list \<Rightarrow> PPPIface \<Rightarrow> PPPIface list \<Rightarrow> PPPIface list" where
  "merge_ppps interfaces new_ppp stored =
     (case scan_ppps interfaces new_ppp [] stored of
        (ppps, found) \<Rightarrow>
          if \<not> found \<and> PPPIface.Iface new_ppp \<noteq> '''' then ppps @ [new_ppp] else ppps)"

definition insertPPPConfigAndSave :: "env \<Rightarrow> InterfaceConfig list \<Rightarrow> PPPIface \<Rightarrow> state \<Rightarrow> error option \<times> state" where
  "insertPPPConfigAndSave e interfaces new_ppp s =
     (let config = (case loadPPPConfigLocked s of
                      (loaded, None) \<Rightarrow> loaded
                    | (loaded, Some err) \<Rightarrow> \<lparr>PPPs = []\<rparr>);
          config = config\<lparr>PPPs := merge_ppps interfaces new_ppp (PPPs config)\<rparr>
      in case write_error e (PPPConfigPath e) of
           Some err \<Rightarrow> (Some err, s)
         | None \<Rightarrow> writePPP e interfaces config (s\<lparr>ppp_json := Some config\<rparr>))"

definition updatePPPConfig :: "env \<Rightarrow> error + PPPIface \<Rightarrow> state \<Rightarrow> response \<times> state" where
  "updatePPPConfig e body s =
     (case body of
        Inl err \<Rightarrow> (HttpError err 400, s)
      | Inr ppp \<Rightarrow>
         (case PPPIface_Validate ppp of
            Some err \<Rightarrow> (HttpError (''Failed to validate ppp '' @ err) 400, s)
          | None \<Rightarrow>
             (let s1 = log_call (UpdateInterfaceType (PPPIface.Iface ppp) ''Uplink'' ''ppp'' (PPPIface.Enabled ppp)) s
              in case updateInterfaceType e (PPPIface.Iface ppp) ''Uplink'' ''ppp'' (PPPIface.Enabled ppp) of
                   Inl err \<Rightarrow> (HttpError err 400, s1)
                 | Inr interfaces \<Rightarrow>
                    (case insertPPPConfigAndSave e interfaces ppp s1 of
                       (Some err, s2) \<Rightarrow> (HttpError err 400, s2)
                     | (None, s2) \<Rightarrow>
                        (let started = enablePlugin e ''PPP'';
                             s3 = log_call (EnablePlugin ''PPP'') s2;
                             s4 = (if \<not> started then log_call (RestartPlugin ''PPP'') s3 else s3)
                         in (Done, s4))))))"

subsection \<open>Example inputs\<close>

text \<open>
  A registry that answers with the one interface it was given, a plugin manager whose
  \<open>enablePlugin\<close> answers \<open>started\<close>, writes that succeed; an empty state; the records of the
  specification's scenarios.
\<close>

definition example_env :: "bool \<Rightarrow> env" where
  "example_env started =
     \<lparr>TEST_PREFIX = '''',
      updateInterfaceType =
        (\<lambda>nm ty st en. Inr [\<lparr>Name = nm, Type = ty, Subtype = st, InterfaceConfig.Enabled = en\<rparr>]),
      enablePlugin = (\<lambda>plugin. started),
      write_error = (\<lambda>path. None),
      parse_with_actions = (\<lambda>iface. Inl ''unexpected action'')\<rparr>"

definition empty_state :: state where
  "empty_state = \<lparr>wpa_json = None, ppp_json = None, files = (\<lambda>path. None), calls = []\<rparr>"

definition home_network :: "string \<Rightarrow> WPANetwork" where
  "home_network key_mgmt =
     \<lparr>Disabled = False, Password = ''secret123'', SSID = ''Home'', KeyMgmt = key_mgmt,
      Priority = '''', BSSID = ''''\<rparr>"

definition wlan :: "string \<Rightarrow> bool \<Rightarrow> string \<Rightarrow> WPAIface" where
  "wlan nm en key_mgmt =
     \<lparr>WPAIface.Iface = nm, WPAIface.Enabled = en, Networks = [home_network key_mgmt]\<rparr>"

definition ppp_record :: "string \<Rightarrow> string \<Rightarrow> PPPIface" where
  "ppp_record nm vlan =
     \<lparr>PPPIface.Iface = nm, PPPIface.Enabled = False, Username = ''alice'', Secret = ''pw'',
      VLAN = vlan, MTU = ''''\<rparr>"

section \<open>Properties\<close>

subsection \<open>Splitting and the accepted key management values\<close>

lemma Split_no_sep: "sep \<notin> set s \<Longrightarrow> Split s sep = [s]"
  by (simp add: Split.simps)

lemma Split_sep: "sep \<notin> set t \<Longrightarrow> Split (t @ sep # r) sep = t # Split r sep"
proof -
  assume a: "sep \<notin> set t"
  then have tw: "takeWhile (\<lambda>ch. ch \<noteq> sep) (t @ sep # r) = t"
    by (induction t) auto
  from a have dw: "dropWhile (\<lambda>ch. ch \<noteq> sep) (t @ sep # r) = sep # r"
    by (induction t) auto
  show ?thesis
    by (subst Split.simps) (simp add: tw dw)
qed

lemma check_parts_None: "(check_parts parts = None) = list_all key_mgmt_name parts"
  by (induction parts) (auto simp: key_mgmt_name_def)

lemma key_mgmt_name_no_space: "key_mgmt_name t \<Longrightarrow> CHR '' '' \<notin> set t"
  by (auto simp: key_mgmt_name_def)

lemma key_mgmt_name_nonempty: "key_mgmt_name t \<Longrightarrow> t \<noteq> []"
  by (auto simp: key_mgmt_name_def)

lemma seq_parts: "key_mgmt_seq k \<Longrightarrow> list_all key_mgmt_name (Split k CHR '' '')"
proof (induction rule: key_mgmt_seq.induct)
  case (one t)
  then show ?case by (simp add: Split_no_sep key_mgmt_name_no_space)
next
  case (more t r)
  then show ?case by (simp add: Split_sep key_mgmt_name_no_space)
qed

lemma seq_nonempty: "key_mgmt_seq k \<Longrightarrow> k \<noteq> []"
  by (induction rule: key_mgmt_seq.induct) (auto simp: key_mgmt_name_nonempty)

lemma parts_seq: "list_all key_mgmt_name (Split k sep) \<Longrightarrow> sep = CHR '' '' \<Longrightarrow> key_mgmt_seq k"
proof (induction k sep rule: Split.induct)
  case (1 s sep)
  show ?case
  proof (cases "sep \<in> set s")
    case True
    let ?t = "takeWhile (\<lambda>ch. ch \<noteq> sep) s"
    let ?r = "tl (dropWhile (\<lambda>ch. ch \<noteq> sep) s)"
    from True have sp: "Split s sep = ?t # Split ?r sep" by (subst Split.simps) simp
    from True have "dropWhile (\<lambda>ch. ch \<noteq> sep) s \<noteq> []" by simp
    moreover have "dropWhile (\<lambda>ch. ch \<noteq> sep) s \<noteq> [] \<Longrightarrow> hd (dropWhile (\<lambda>ch. ch \<noteq> sep) s) = sep"
      using hd_dropWhile [of "\<lambda>ch. ch \<noteq> sep" s] by simp
    ultimately have dw: "dropWhile (\<lambda>ch. ch \<noteq> sep) s = sep # ?r"
      by (cases "dropWhile (\<lambda>ch. ch \<noteq> sep) s") auto
    have "s = ?t @ dropWhile (\<lambda>ch. ch \<noteq> sep) s" by simp
    with dw have s: "s = ?t @ sep # ?r" by simp
    from "1.prems" sp have t: "key_mgmt_name ?t" and r: "list_all key_mgmt_name (Split ?r sep)"
      by simp_all
    from "1.IH" [OF True r "1.prems"(2)] have "key_mgmt_seq ?r" .
    with t have "key_mgmt_seq (?t @ CHR '' '' # ?r)" by (rule key_mgmt_seq.more)
    with s "1.prems"(2) show ?thesis by simp
  next
    case False
    with "1.prems" have "key_mgmt_name s" by (simp add: Split_no_sep)
    then show ?thesis by (rule key_mgmt_seq.one)
  qed
qed

subsection \<open>Executing the templates\<close>

lemma collect_two_Inr [simp]: "collect [Inr a, Inr b] = Inr (a @ b)"
  by simp

lemma collect_two_Inl2 [simp]: "collect [Inr a, Inl err] = Inl err"
  by simp

lemma collect_two_Inl1 [simp]: "collect [Inl err, r] = Inl err"
  by simp

lemma Execute_provider: "Execute provider_template (val_PPPIface p) = Inl ''can not evaluate field BSSID''"
  by (simp add: provider_template_def val_PPPIface_def)

lemma writePPP_loop_fails: "writePPP_loop e (p # ps) s = (Some ''can not evaluate field BSSID'', s)"
  by (simp add: Execute_provider)

lemma Execute_chap_line:
  \<open>Execute [Text (''\<newline>      "''), Print ''Username'', Text (''" * "''), Print ''Secret'',
        Text (''"\<newline>    '')] (val_PPPIface p)
   = Inr (''\<newline>      "'' @ Username p @ ''" * "'' @ Secret p @ ''"\<newline>    '')\<close>
  by (simp add: val_PPPIface_def)

lemma collect_map_Inr: "collect (map (\<lambda>x. Inr (f x)) xs) = Inr (concat (map f xs))"
  by (induction xs) simp_all

lemma Execute_Range_map:
  assumes "evalField f dot = Inr (VSlice (map g xs))" and "\<And>x. Execute body (g x) = Inr (h x)"
  shows "Execute (Range f body # nodes) dot = collect [Inr (concat (map h xs)), Execute nodes dot]"
proof -
  have "collect (map (\<lambda>elem. Execute body elem) (map g xs)) = Inr (concat (map h xs))"
    unfolding map_map comp_def assms(2) by (rule collect_map_Inr)
  with assms(1) show ?thesis by simp
qed

lemma Execute_chap:
  \<open>Execute chap_secrets_template (val_PPPConfig config) =
    Inr (''# Note this is an autogenerated file\<newline>    # Secrets for authentication using CHAP\<newline>    # client        server  secret                  IP addresses\<newline>\<newline>    ''
      @ concat (map (\<lambda>p. ''\<newline>      "'' @ Username p @ ''" * "'' @ Secret p @ ''"\<newline>    '') (PPPs config))
      @ ''\<newline>    '')\<close>
proof -
  have ev: "evalField ''PPPs'' (val_PPPConfig config) = Inr (VSlice (map val_PPPIface (PPPs config)))"
    by (simp add: val_PPPConfig_def)
  note r = Execute_Range_map [OF ev Execute_chap_line]
  show ?thesis
    unfolding chap_secrets_template_def by (simp add: r del: Execute.simps(5))
qed

lemma writeWPAs_loop_filter: "writeWPAs_loop e (filter WPAIface.Enabled ws) s = writeWPAs_loop e ws s"
  by (induction ws arbitrary: s) (auto split: sum.splits option.splits prod.splits)

subsection \<open>What rendering leaves alone\<close>

lemma WriteFile_frame:
  "calls (snd (WriteFile e path data s)) = calls s"
  "wpa_json (snd (WriteFile e path data s)) = wpa_json s"
  "ppp_json (snd (WriteFile e path data s)) = ppp_json s"
  by (simp_all add: WriteFile_def split: option.splits)

lemma writeWPAs_loop_frame:
  "calls (snd (writeWPAs_loop e ws s)) = calls s \<and> wpa_json (snd (writeWPAs_loop e ws s)) = wpa_json s"
proof (induction ws arbitrary: s)
  case Nil
  show ?case by simp
next
  case (Cons w ws)
  show ?case
  proof (cases "WPAIface.Enabled w")
    case False
    with Cons show ?thesis by simp
  next
    case True
    show ?thesis
    proof (cases "wpa_template e (WPAIface.Iface w)")
      case (Inl err)
      with True show ?thesis by simp
    next
      case (Inr tmpl)
      show ?thesis
      proof (cases "Execute tmpl (val_WPAIface w)")
        case (Inl err)
        with True Inr show ?thesis by simp
      next
        case res: (Inr result)
        let ?w = "WriteFile e (TEST_PREFIX e @ ''/configs/wifi_uplink/wpa_'' @ WPAIface.Iface w @ ''.conf'') result s"
        obtain r s' where w: "?w = (r, s')" by (cases ?w)
        with WriteFile_frame [of e _ result s] have fr: "calls s' = calls s" "wpa_json s' = wpa_json s"
          by (metis snd_conv)+
        show ?thesis
        proof (cases r)
          case None
          with True Inr res w fr Cons [of s'] show ?thesis by simp
        next
          case (Some err)
          with True Inr res w fr show ?thesis by simp
        qed
      qed
    qed
  qed
qed

lemma writePPP_frame:
  "calls (snd (writePPP e ifs c s)) = calls s \<and> ppp_json (snd (writePPP e ifs c s)) = ppp_json s"
proof (cases "Execute chap_secrets_template (val_PPPConfig c)")
  case (Inl err)
  then show ?thesis by (simp add: writePPP_def)
next
  case (Inr result)
  let ?w = "WriteFile e (chap_secrets_path e) result s"
  obtain r s' where w: "?w = (r, s')" by (cases ?w)
  with WriteFile_frame [of e _ result s] have fr: "calls s' = calls s" "ppp_json s' = ppp_json s"
    by (metis snd_conv)+
  have loop: "writePPP_loop e ps s' = (None, s') \<or> (\<exists>err. writePPP_loop e ps s' = (Some err, s'))" for ps
    by (cases ps) (simp_all add: provider_template_def val_PPPIface_def)
  show ?thesis
  proof (cases r)
    case None
    with Inr w fr loop [of "PPPs c"] show ?thesis by (auto simp: writePPP_def)
  next
    case (Some err)
    with Inr w fr show ?thesis by (simp add: writePPP_def)
  qed
qed

subsection \<open>The merge as a function of the stored collection\<close>

lemma scan_wpas_eq:
  "scan_wpas ifs new acc xs =
     (if list_ex (\<lambda>x. WPAIface.Iface x = WPAIface.Iface new) xs
      then (acc @ map (\<lambda>w. w\<lparr>WPAIface.Enabled := isWifiUplinkIfaceEnabled (WPAIface.Iface w) ifs\<rparr>)
                   (takeWhile (\<lambda>x. WPAIface.Iface x \<noteq> WPAIface.Iface new) xs) @ [new], True)
      else (acc @ map (\<lambda>w. w\<lparr>WPAIface.Enabled := isWifiUplinkIfaceEnabled (WPAIface.Iface w) ifs\<rparr>) xs, False))"
  by (induction xs arbitrary: acc) auto

lemma list_ex_map_refresh:
  "list_ex (\<lambda>x. WPAIface.Iface x = k) (map (\<lambda>w. w\<lparr>WPAIface.Enabled := f w\<rparr>) xs) = list_ex (\<lambda>x. WPAIface.Iface x = k) xs"
  by (induction xs) auto

lemma takeWhile_refresh_all:
  "\<not> list_ex (\<lambda>x. WPAIface.Iface x = WPAIface.Iface new) ys \<Longrightarrow>
   takeWhile (\<lambda>x. WPAIface.Iface x \<noteq> WPAIface.Iface new) (map (\<lambda>w. w\<lparr>WPAIface.Enabled := f w\<rparr>) ys @ [new])
     = map (\<lambda>w. w\<lparr>WPAIface.Enabled := f w\<rparr>) ys"
  by (induction ys) auto

lemma not_ex_takeWhile:
  "\<not> list_ex P (takeWhile (\<lambda>x. \<not> P x) xs)"
  by (induction xs) auto

lemma merge_wpas_idem: "merge_wpas ifs new (merge_wpas ifs new xs) = merge_wpas ifs new xs"
proof -
  let ?r = "\<lambda>w. w\<lparr>WPAIface.Enabled := isWifiUplinkIfaceEnabled (WPAIface.Iface w) ifs\<rparr>"
  let ?P = "\<lambda>x. WPAIface.Iface x = WPAIface.Iface new"
  have rr: "map ?r (map ?r ys) = map ?r ys" for ys by simp
  show ?thesis
  proof (cases "list_ex ?P xs")
    case True
    let ?pre = "takeWhile (\<lambda>x. \<not> ?P x) xs"
    from True have m1: "merge_wpas ifs new xs = map ?r ?pre @ [new]"
      by (simp add: merge_wpas_def scan_wpas_eq)
    have np: "\<not> list_ex ?P ?pre" by (rule not_ex_takeWhile)
    have ex2: "list_ex ?P (map ?r ?pre @ [new])" by simp
    have "merge_wpas ifs new (map ?r ?pre @ [new]) = map ?r (map ?r ?pre) @ [new]"
      unfolding merge_wpas_def scan_wpas_eq using ex2 takeWhile_refresh_all [OF np] by simp
    with m1 rr show ?thesis by simp
  next
    case False
    show ?thesis
    proof (cases "WPAIface.Iface new = ''''")
      case True
      with False have m1: "merge_wpas ifs new xs = map ?r xs"
        by (simp add: merge_wpas_def scan_wpas_eq)
      from False have "\<not> list_ex ?P (map ?r xs)" by (simp add: list_ex_map_refresh)
      with True have "merge_wpas ifs new (map ?r xs) = map ?r (map ?r xs)"
        by (simp add: merge_wpas_def scan_wpas_eq)
      with m1 rr show ?thesis by simp
    next
      case nonempty: False
      with False have m1: "merge_wpas ifs new xs = map ?r xs @ [new]"
        by (simp add: merge_wpas_def scan_wpas_eq)
      have ex2: "list_ex ?P (map ?r xs @ [new])" by simp
      have "merge_wpas ifs new (map ?r xs @ [new]) = map ?r (map ?r xs) @ [new]"
        unfolding merge_wpas_def scan_wpas_eq using ex2 takeWhile_refresh_all [OF False] by simp
      with m1 rr show ?thesis by simp
    qed
  qed
qed

lemma scan_ppps_eq:
  "scan_ppps ifs new acc xs =
     (if list_ex (\<lambda>x. PPPIface.Iface x = PPPIface.Iface new) xs
      then (acc @ map (\<lambda>p. p\<lparr>PPPIface.Enabled := isPPPUplinkIfaceEnabled (PPPIface.Iface p) ifs\<rparr>)
                   (takeWhile (\<lambda>x. PPPIface.Iface x \<noteq> PPPIface.Iface new) xs) @ [new], True)
      else (acc @ map (\<lambda>p. p\<lparr>PPPIface.Enabled := isPPPUplinkIfaceEnabled (PPPIface.Iface p) ifs\<rparr>) xs, False))"
  by (induction xs arbitrary: acc) auto

lemma list_ex_map_refresh_ppp:
  "list_ex (\<lambda>x. PPPIface.Iface x = k) (map (\<lambda>p. p\<lparr>PPPIface.Enabled := f p\<rparr>) xs) = list_ex (\<lambda>x. PPPIface.Iface x = k) xs"
  by (induction xs) auto

lemma takeWhile_refresh_all_ppp:
  "\<not> list_ex (\<lambda>x. PPPIface.Iface x = PPPIface.Iface new) ys \<Longrightarrow>
   takeWhile (\<lambda>x. PPPIface.Iface x \<noteq> PPPIface.Iface new) (map (\<lambda>p. p\<lparr>PPPIface.Enabled := f p\<rparr>) ys @ [new])
     = map (\<lambda>p. p\<lparr>PPPIface.Enabled := f p\<rparr>) ys"
  by (induction ys) auto

lemma merge_ppps_idem: "merge_ppps ifs new (merge_ppps ifs new xs) = merge_ppps ifs new xs"
proof -
  let ?r = "\<lambda>p. p\<lparr>PPPIface.Enabled := isPPPUplinkIfaceEnabled (PPPIface.Iface p) ifs\<rparr>"
  let ?P = "\<lambda>x. PPPIface.Iface x = PPPIface.Iface new"
  have rr: "map ?r (map ?r ys) = map ?r ys" for ys by simp
  show ?thesis
  proof (cases "list_ex ?P xs")
    case True
    let ?pre = "takeWhile (\<lambda>x. \<not> ?P x) xs"
    from True have m1: "merge_ppps ifs new xs = map ?r ?pre @ [new]"
      by (simp add: merge_ppps_def scan_ppps_eq)
    have np: "\<not> list_ex ?P ?pre" by (rule not_ex_takeWhile)
    have ex2: "list_ex ?P (map ?r ?pre @ [new])" by simp
    have "merge_ppps ifs new (map ?r ?pre @ [new]) = map ?r (map ?r ?pre) @ [new]"
      unfolding merge_ppps_def scan_ppps_eq using ex2 takeWhile_refresh_all_ppp [OF np] by simp
    with m1 rr show ?thesis by simp
  next
    case False
    show ?thesis
    proof (cases "PPPIface.Iface new = ''''")
      case True
      with False have m1: "merge_ppps ifs new xs = map ?r xs"
        by (simp add: merge_ppps_def scan_ppps_eq)
      from False have "\<not> list_ex ?P (map ?r xs)" by (simp add: list_ex_map_refresh_ppp)
      with True have "merge_ppps ifs new (map ?r xs) = map ?r (map ?r xs)"
        by (simp add: merge_ppps_def scan_ppps_eq)
      with m1 rr show ?thesis by simp
    next
      case nonempty: False
      with False have m1: "merge_ppps ifs new xs = map ?r xs @ [new]"
        by (simp add: merge_ppps_def scan_ppps_eq)
      have ex2: "list_ex ?P (map ?r xs @ [new])" by simp
      have "merge_ppps ifs new (map ?r xs @ [new]) = map ?r (map ?r xs) @ [new]"
        unfolding merge_ppps_def scan_ppps_eq using ex2 takeWhile_refresh_all_ppp [OF False] by simp
      with m1 rr show ?thesis by simp
    qed
  qed
qed

lemma insertWpa_json:
  "wpa_json (snd (insertWpaConfigAndSave e ifs new s)) =
     (case write_error e (WpaConfigPath e) of
        Some err \<Rightarrow> wpa_json s
      | None \<Rightarrow> Some \<lparr>WPAs = merge_wpas ifs new (case wpa_json s of None \<Rightarrow> [] | Some c \<Rightarrow> WPAs c)\<rparr>)"
  by (simp add: insertWpaConfigAndSave_def loadWpaConfigLocked_def writeWPAs_def
      writeWPAs_loop_frame split: option.splits)

lemma insertPPP_json:
  "ppp_json (snd (insertPPPConfigAndSave e ifs new s)) =
     (case write_error e (PPPConfigPath e) of
        Some err \<Rightarrow> ppp_json s
      | None \<Rightarrow> Some \<lparr>PPPs = merge_ppps ifs new (case ppp_json s of None \<Rightarrow> [] | Some c \<Rightarrow> PPPs c)\<rparr>)"
  by (simp add: insertPPPConfigAndSave_def Let_def loadPPPConfigLocked_def writePPP_frame split: option.splits)

lemma insert_calls:
  "calls (snd (insertWpaConfigAndSave e ifs new s)) = calls s"
  by (simp add: insertWpaConfigAndSave_def Let_def writeWPAs_def writeWPAs_loop_frame split: option.splits)

lemma match_iface_empty: "match_iface ''''"
  by (simp add: match_iface.simps)

lemma Atoi_abc: "Atoi ''abc'' = Inl ErrSyntax"
  by (simp add: Atoi_def is_digit_def)

lemma Validate_abc: "PPPIface_Validate (ppp_record ''ppp0'' ''abc'') = Some ''VLAN field must contain numeric value''"
  by (simp add: PPPIface_Validate_def ppp_record_def contains_newline_def Atoi_abc)

subsection \<open>The handlers on the example inputs\<close>

lemma merge_wpas_match_head:
  "WPAIface.Iface wpa = WPAIface.Iface new_wpa \<Longrightarrow> merge_wpas interfaces new_wpa (wpa # rest) = [new_wpa]"
  by (simp add: merge_wpas_def)

lemma match_iface_wlan1: "match_iface ''wlan1''"
  by (simp add: match_iface.simps is_alnum_def)

lemma Split_default: "Split ''WPA-PSK WPA-PSK-SHA256'' CHR '' '' = [''WPA-PSK'', ''WPA-PSK-SHA256'']"
  by (simp add: Split.simps)

lemma validate_networks_home_empty: "validate_networks False [home_network ''''] = Inr True"
  by (simp add: home_network_def WPANetwork_Validate_def contains_newline_def Split_default)

lemma validate_networks_home_default:
  "validate_networks False [home_network ''WPA-PSK WPA-PSK-SHA256''] = Inr True"
  by (simp add: home_network_def WPANetwork_Validate_def contains_newline_def Split_default)

lemma Execute_network_block: "\<not> isl (Execute wpa_network_block (val_WPANetwork n))"
  by (simp add: wpa_network_block_def val_WPANetwork_def)

lemma Execute_wpa_ok:
  "\<exists>out. Execute (Text t # wpa_template_actions) (val_WPAIface w) = Inr out"
proof -
  have ev: "evalField ''Networks'' (val_WPAIface w) = Inr (VSlice (map val_WPANetwork (Networks w)))"
    by (simp add: val_WPAIface_def)
  have b: "Execute wpa_network_block (val_WPANetwork n)
             = Inr (projr (Execute wpa_network_block (val_WPANetwork n)))" for n
    using Execute_network_block [of n] by (cases "Execute wpa_network_block (val_WPANetwork n)") simp_all
  show ?thesis
    unfolding wpa_template_actions_def
    by (simp add: Execute_Range_map [OF ev b] del: Execute.simps(5))
qed

lemma writeWPAs_loop_ok:
  assumes "\<And>path. write_error e path = None"
    and "list_all (\<lambda>w. \<not> has_left_delim (WPAIface.Iface w)) ws"
  shows "fst (writeWPAs_loop e ws s) = None"
  using assms(2)
proof (induction ws arbitrary: s)
  case Nil
  show ?case by simp
next
  case (Cons w ws)
  obtain out where "Execute (Text (wpa_template_text (WPAIface.Iface w)) # wpa_template_actions) (val_WPAIface w) = Inr out"
    using Execute_wpa_ok by blast
  with Cons assms(1) show ?case
    by (simp add: wpa_template_def WriteFile_def del: Execute.simps)
qed

lemma example_env_writes: "write_error (example_env st) path = None"
  by (simp add: example_env_def)

lemma validate_networks_enabled:
  "validate_networks enabled nets = Inr r \<Longrightarrow> r = (enabled \<or> list_ex (\<lambda>n. \<not> Disabled n) nets)"
proof (induction nets arbitrary: enabled)
  case Nil
  then show ?case by simp
next
  case (Cons n nets)
  then show ?case by (auto simp: Let_def split: option.splits if_splits)
qed

lemma update_wpa_Done:
  assumes "updateWpaSupplicantConfig e (Inr wpa) s = (Done, s')"
  shows "\<exists>enabled interfaces s2.
      validate_networks False (Networks wpa) = Inr enabled \<and>
      updateInterfaceType e (WPAIface.Iface wpa) ''Uplink'' ''wifi'' (WPAIface.Enabled wpa) = Inr interfaces \<and>
      insertWpaConfigAndSave e interfaces wpa
        (log_call (UpdateInterfaceType (WPAIface.Iface wpa) ''Uplink'' ''wifi'' (WPAIface.Enabled wpa)) s) = (None, s2) \<and>
      s' = (let started = (if enabled then enablePlugin e ''WIFI-UPLINK'' else False);
                s3 = (if enabled then log_call (EnablePlugin ''WIFI-UPLINK'') s2 else s2)
            in if \<not> started then log_call (RestartPlugin ''WIFI-UPLINK'') s3 else s3)"
  using assms
  by (auto simp: updateWpaSupplicantConfig_def Let_def split: sum.splits if_splits option.splits prod.splits)

lemma update_wpa_calls:
  assumes "list_ex (\<lambda>n. \<not> Disabled n) (Networks wpa)"
    and "updateWpaSupplicantConfig e (Inr wpa) s = (Done, s')"
  shows "calls s' = calls s @
      [UpdateInterfaceType (WPAIface.Iface wpa) ''Uplink'' ''wifi'' (WPAIface.Enabled wpa),
       EnablePlugin ''WIFI-UPLINK''] @
      (if enablePlugin e ''WIFI-UPLINK'' then [] else [RestartPlugin ''WIFI-UPLINK''])"
proof -
  let ?s1 = "log_call (UpdateInterfaceType (WPAIface.Iface wpa) ''Uplink'' ''wifi'' (WPAIface.Enabled wpa)) s"
  from update_wpa_Done [OF assms(2)] obtain enabled interfaces s2 where
    v: "validate_networks False (Networks wpa) = Inr enabled" and
    i: "insertWpaConfigAndSave e interfaces wpa ?s1 = (None, s2)" and
    s': "s' = (let started = (if enabled then enablePlugin e ''WIFI-UPLINK'' else False);
                s3 = (if enabled then log_call (EnablePlugin ''WIFI-UPLINK'') s2 else s2)
            in if \<not> started then log_call (RestartPlugin ''WIFI-UPLINK'') s3 else s3)"
    by blast
  from validate_networks_enabled [OF v] assms(1) have en: "enabled" by simp
  from insert_calls [of e interfaces wpa ?s1] i have "calls s2 = calls ?s1" by simp
  then have c2: "calls s2 = calls s @ [UpdateInterfaceType (WPAIface.Iface wpa) ''Uplink'' ''wifi'' (WPAIface.Enabled wpa)]"
    by (simp add: log_call_def)
  from s' en c2 show ?thesis by (simp add: Let_def log_call_def)
qed

lemma update_wlan1_Done:
  assumes "wpa_json s = None \<or> wpa_json s = Some \<lparr>WPAs = [wlan ''wlan1'' en0 k0]\<rparr>"
    and "k = '''' \<or> k = ''WPA-PSK WPA-PSK-SHA256''"
  shows "fst (updateWpaSupplicantConfig (example_env st) (Inr (wlan ''wlan1'' en k)) s) = Done \<and>
     wpa_json (snd (updateWpaSupplicantConfig (example_env st) (Inr (wlan ''wlan1'' en k)) s))
       = Some \<lparr>WPAs = [wlan ''wlan1'' en k]\<rparr>"
proof -
  let ?ifs = "[\<lparr>Name = ''wlan1'', Type = ''Uplink'', Subtype = ''wifi'', InterfaceConfig.Enabled = en\<rparr>]"
  let ?s1 = "log_call (UpdateInterfaceType ''wlan1'' ''Uplink'' ''wifi'' en) s"
  let ?c = "\<lparr>WPAs = [wlan ''wlan1'' en k]\<rparr>"
  have v: "validate_networks False (Networks (wlan ''wlan1'' en k)) = Inr True"
  proof -
    have "Networks (wlan ''wlan1'' en k) = [home_network k]" by (simp add: wlan_def)
    with assms(2) validate_networks_home_empty validate_networks_home_default show ?thesis
      by (elim disjE) (simp_all only:)
  qed
  have m: "merge_wpas ?ifs (wlan ''wlan1'' en k) (case wpa_json ?s1 of None \<Rightarrow> [] | Some c \<Rightarrow> WPAs c)
      = [wlan ''wlan1'' en k]"
    using assms(1) by (auto simp: merge_wpas_def log_call_def wlan_def)
  have w: "fst (writeWPAs_loop (example_env st) [wlan ''wlan1'' en k] s0) = None" for s0
    by (rule writeWPAs_loop_ok) (simp_all add: example_env_writes wlan_def)
  have f: "fst (insertWpaConfigAndSave (example_env st) ?ifs (wlan ''wlan1'' en k) ?s1) = None"
    using assms(1) w
    by (auto simp: insertWpaConfigAndSave_def loadWpaConfigLocked_def writeWPAs_def
        example_env_writes merge_wpas_def log_call_def wlan_def)
  have j: "wpa_json (snd (insertWpaConfigAndSave (example_env st) ?ifs (wlan ''wlan1'' en k) ?s1)) = Some ?c"
    using m by (simp add: insertWpa_json example_env_writes)
  obtain r s2 where i: "insertWpaConfigAndSave (example_env st) ?ifs (wlan ''wlan1'' en k) ?s1 = (r, s2)"
    by (cases "insertWpaConfigAndSave (example_env st) ?ifs (wlan ''wlan1'' en k) ?s1")
  with f j have r: "r = None" and j2: "wpa_json s2 = Some ?c" by simp_all
  have u: "updateInterfaceType (example_env st) ''wlan1'' ''Uplink'' ''wifi'' en = Inr ?ifs"
    by (simp add: example_env_def)
  have n: "WPAIface.Iface (wlan ''wlan1'' en k) = ''wlan1''" "WPAIface.Enabled (wlan ''wlan1'' en k) = en"
    by (simp_all add: wlan_def)
  show ?thesis
    using i r j2 by (simp add: updateWpaSupplicantConfig_def n match_iface_wlan1 v u Let_def log_call_def)
qed

lemma writePPP_nonempty_fails:
  "PPPs config \<noteq> [] \<Longrightarrow> fst (writePPP e interfaces config s) \<noteq> None"
  by (cases "PPPs config")
    (auto simp: writePPP_def Execute_chap WriteFile_def writePPP_loop_fails
      simp del: writePPP_loop.simps(2) split: option.splits)

lemma writePPP_no_provider:
  "path \<noteq> chap_secrets_path e \<Longrightarrow> files (snd (writePPP e interfaces config s)) path = files s path"
  by (cases "PPPs config")
    (auto simp: writePPP_def Execute_chap WriteFile_def writePPP_loop_fails
      simp del: writePPP_loop.simps(2) split: option.splits)

subsection \<open>What the PPP validation checks\<close>

lemma Validate_Iface_nonempty_only:
  "PPPIface_Validate p = None \<Longrightarrow> iface \<noteq> '''' \<Longrightarrow> PPPIface_Validate (p\<lparr>PPPIface.Iface := iface\<rparr>) = None"
  by (auto simp: PPPIface_Validate_def split: if_splits)

lemma Validate_rejects_newlines:
  "contains_newline (Username p) \<or> contains_newline (Secret p) \<Longrightarrow> PPPIface_Validate p \<noteq> None"
  by (auto simp: PPPIface_Validate_def)

lemma Validate_newline_iface: "PPPIface_Validate (ppp_record ''ppp0\<newline>noauth'' '''') = None"
  by (simp add: PPPIface_Validate_def ppp_record_def contains_newline_def)

lemma insertPPP_result:
  "write_error e (PPPConfigPath e) = None \<Longrightarrow> ppp_json s = None \<Longrightarrow> PPPIface.Iface ppp \<noteq> '''' \<Longrightarrow>
   insertPPPConfigAndSave e interfaces ppp s =
     writePPP e interfaces \<lparr>PPPs = [ppp]\<rparr> (s\<lparr>ppp_json := Some \<lparr>PPPs = [ppp]\<rparr>\<rparr>)"
  by (simp add: insertPPPConfigAndSave_def Let_def loadPPPConfigLocked_def merge_ppps_def)

lemma writePPP_single:
  "write_error e (chap_secrets_path e) = None \<Longrightarrow>
   fst (writePPP e interfaces \<lparr>PPPs = [ppp]\<rparr> s) = Some ''can not evaluate field BSSID'' \<and>
   ppp_json (snd (writePPP e interfaces \<lparr>PPPs = [ppp]\<rparr> s)) = ppp_json s \<and>
   calls (snd (writePPP e interfaces \<lparr>PPPs = [ppp]\<rparr> s)) = calls s"
  by (simp add: writePPP_def Execute_chap WriteFile_def writePPP_loop_fails del: writePPP_loop.simps(2))

subsection \<open>The claims\<close>

text \<open>
  Claim C1: with stored records for wlan1 and wlan2, in that order, merging a new record
  for wlan1 puts the submitted record in the place of the wlan1 record and keeps the
  wlan2 record, its \<open>Enabled\<close> flag as it was.  The code does not keep it: the \<open>break\<close> at the
  match ends the scan, the records after the match are not appended, and the collection
  that is written holds the submitted record alone.
\<close>

theorem records_after_match_dropped:
  "merge_wpas
     [\<lparr>Name = ''wlan1'', Type = ''Uplink'', Subtype = ''wifi'', InterfaceConfig.Enabled = False\<rparr>,
      \<lparr>Name = ''wlan2'', Type = ''Uplink'', Subtype = ''wifi'', InterfaceConfig.Enabled = True\<rparr>]
     (wlan ''wlan1'' False ''SAE'')
     [wlan ''wlan1'' True ''WPA-PSK'', wlan ''wlan2'' True ''WPA-PSK'']
   = [wlan ''wlan1'' False ''SAE''] \<and>
   wpa_json (snd (insertWpaConfigAndSave (example_env True)
     [\<lparr>Name = ''wlan1'', Type = ''Uplink'', Subtype = ''wifi'', InterfaceConfig.Enabled = False\<rparr>,
      \<lparr>Name = ''wlan2'', Type = ''Uplink'', Subtype = ''wifi'', InterfaceConfig.Enabled = True\<rparr>]
     (wlan ''wlan1'' False ''SAE'')
     (empty_state\<lparr>wpa_json := Some \<lparr>WPAs = [wlan ''wlan1'' True ''WPA-PSK'', wlan ''wlan2'' True ''WPA-PSK'']\<rparr>\<rparr>)))
   = Some \<lparr>WPAs = [wlan ''wlan1'' False ''SAE'']\<rparr>"
  by (simp add: insertWpa_json merge_wpas_match_head example_env_def empty_state_def wlan_def)

text \<open>
  Claim C2: for a non-empty PPP collection of validated records \<open>writePPP\<close> succeeds and
  writes one provider file for each record.  The code does not: the provider template
  reads a field \<open>BSSID\<close> that \<open>PPPIface\<close> does not have, executing it is an error for every
  record, and \<open>writePPP\<close> returns that error after the chap-secrets file and before any
  provider file.
\<close>

theorem writePPP_fails_on_provider:
  "fst (writePPP (example_env True) [] \<lparr>PPPs = [ppp_record ''ppp0'' '''']\<rparr> empty_state)
     = Some ''can not evaluate field BSSID'' \<and>
   files (snd (writePPP (example_env True) [] \<lparr>PPPs = [ppp_record ''ppp0'' '''']\<rparr> empty_state))
     (provider_path (example_env True) (ppp_record ''ppp0'' '''')) = None"
  by (simp add: writePPP_def Execute_chap WriteFile_def writePPP_loop_fails example_env_def
      empty_state_def provider_path_def chap_secrets_path_def ppp_record_def del: writePPP_loop.simps(2))

text \<open>
  Claim C3: a WPA record with a network whose \<open>KeyMgmt\<close> is empty is accepted, and the
  stored record carries the default \<open>KeyMgmt\<close> for that network.  The code accepts the
  request and stores the empty \<open>KeyMgmt\<close>: the default is written to the loop's copy of the
  network, and the stored network is one that \<open>Validate\<close> rejects.
\<close>

theorem default_KeyMgmt_not_stored:
  "fst (updateWpaSupplicantConfig (example_env True) (Inr (wlan ''wlan1'' True '''')) empty_state) = Done \<and>
   wpa_json (snd (updateWpaSupplicantConfig (example_env True) (Inr (wlan ''wlan1'' True '''')) empty_state))
     = Some \<lparr>WPAs = [wlan ''wlan1'' True '''']\<rparr> \<and>
   map KeyMgmt (Networks (wlan ''wlan1'' True '''')) = [''''] \<and>
   WPANetwork_Validate (home_network '''') \<noteq> None"
proof -
  have "wpa_json empty_state = None \<or> wpa_json empty_state = Some \<lparr>WPAs = [wlan ''wlan1'' True '''']\<rparr>"
    by (simp add: empty_state_def)
  from update_wlan1_Done [OF this, of "''''" True True] show ?thesis
    by (simp add: wlan_def home_network_def WPANetwork_Validate_def contains_newline_def)
qed

text \<open>
  Claim C4, as amended: when a WPA record with at least one network that is not disabled
  is submitted and the update succeeds, whatever the record's own \<open>Enabled\<close> flag, the
  handler asks the plugin manager to enable the WIFI-UPLINK plugin, and asks it to restart
  the plugin exactly when \<open>enablePlugin\<close> answers that it did not start it.
\<close>

theorem enabled_network_enables_plugin:
  assumes "list_ex (\<lambda>n. \<not> Disabled n) (Networks wpa)"
    and "updateWpaSupplicantConfig e (Inr wpa) s = (Done, s')"
  shows "calls s' = calls s @
      [UpdateInterfaceType (WPAIface.Iface wpa) ''Uplink'' ''wifi'' (WPAIface.Enabled wpa),
       EnablePlugin ''WIFI-UPLINK''] @
      (if enablePlugin e ''WIFI-UPLINK'' then [] else [RestartPlugin ''WIFI-UPLINK''])"
  using assms by (rule update_wpa_calls)

theorem enabled_network_enables_plugin_witness:
  "calls (snd (updateWpaSupplicantConfig (example_env False)
          (Inr (wlan ''wlan1'' False ''WPA-PSK WPA-PSK-SHA256''))
          (empty_state\<lparr>wpa_json := Some \<lparr>WPAs = [wlan ''wlan1'' True ''WPA-PSK WPA-PSK-SHA256'']\<rparr>\<rparr>)))
     = [UpdateInterfaceType ''wlan1'' ''Uplink'' ''wifi'' False, EnablePlugin ''WIFI-UPLINK'',
        RestartPlugin ''WIFI-UPLINK''] \<and>
   calls (snd (updateWpaSupplicantConfig (example_env True)
          (Inr (wlan ''wlan1'' False ''WPA-PSK WPA-PSK-SHA256''))
          (empty_state\<lparr>wpa_json := Some \<lparr>WPAs = [wlan ''wlan1'' True ''WPA-PSK WPA-PSK-SHA256'']\<rparr>\<rparr>)))
     = [UpdateInterfaceType ''wlan1'' ''Uplink'' ''wifi'' False, EnablePlugin ''WIFI-UPLINK'']"
proof -
  let ?s = "empty_state\<lparr>wpa_json := Some \<lparr>WPAs = [wlan ''wlan1'' True ''WPA-PSK WPA-PSK-SHA256'']\<rparr>\<rparr>"
  let ?w = "wlan ''wlan1'' False ''WPA-PSK WPA-PSK-SHA256''"
  let ?R = "\<lambda>st. updateWpaSupplicantConfig (example_env st) (Inr ?w) ?s"
  have "fst (?R st) = Done" for st
    using update_wlan1_Done [of ?s True "''WPA-PSK WPA-PSK-SHA256''" "''WPA-PSK WPA-PSK-SHA256''" st False]
    by simp
  then have R: "?R st = (Done, snd (?R st))" for st by (simp add: prod_eq_iff)
  have n: "list_ex (\<lambda>n. \<not> Disabled n) (Networks ?w)" by (simp add: wlan_def home_network_def)
  from enabled_network_enables_plugin [OF n R [of False]] enabled_network_enables_plugin [OF n R [of True]]
  show ?thesis
    by (simp add: example_env_def empty_state_def wlan_def)
qed

text \<open>
  Claim C4 as it was stated fails on scenario B (the plugin already runs, so \<open>enablePlugin\<close>
  answers false): the record for wlan1 is submitted again with \<open>Enabled\<close> false and the same
  network, which is not disabled; the handler does ask for the plugin to be enabled.
\<close>

theorem scenario_B_calls_enable:
  "\<not> (RestartPlugin ''WIFI-UPLINK'' \<in> set (calls (snd (updateWpaSupplicantConfig (example_env False)
          (Inr (wlan ''wlan1'' False ''WPA-PSK WPA-PSK-SHA256''))
          (empty_state\<lparr>wpa_json := Some \<lparr>WPAs = [wlan ''wlan1'' True ''WPA-PSK WPA-PSK-SHA256'']\<rparr>\<rparr>)))) \<and>
       EnablePlugin ''WIFI-UPLINK'' \<notin> set (calls (snd (updateWpaSupplicantConfig (example_env False)
          (Inr (wlan ''wlan1'' False ''WPA-PSK WPA-PSK-SHA256''))
          (empty_state\<lparr>wpa_json := Some \<lparr>WPAs = [wlan ''wlan1'' True ''WPA-PSK WPA-PSK-SHA256'']\<rparr>\<rparr>)))))"
proof -
  let ?s = "empty_state\<lparr>wpa_json := Some \<lparr>WPAs = [wlan ''wlan1'' True ''WPA-PSK WPA-PSK-SHA256'']\<rparr>\<rparr>"
  let ?w = "wlan ''wlan1'' False ''WPA-PSK WPA-PSK-SHA256''"
  let ?R = "updateWpaSupplicantConfig (example_env False) (Inr ?w) ?s"
  have "fst ?R = Done"
    using update_wlan1_Done [of ?s True "''WPA-PSK WPA-PSK-SHA256''" "''WPA-PSK WPA-PSK-SHA256''" False False]
    by simp
  then have R: "?R = (Done, snd ?R)" by (simp add: prod_eq_iff)
  have "list_ex (\<lambda>n. \<not> Disabled n) (Networks ?w)" by (simp add: wlan_def home_network_def)
  from update_wpa_calls [OF this R] show ?thesis
    by (simp add: example_env_def)
qed

text \<open>
  Claim C5: a submitted PPP record that fails validation, such as one with the VLAN
  \<open>abc\<close>, is answered with a client error (status 400); the interface registry is not
  called, and neither the stored PPP collection nor any other file changes: the state
  is the one before the request.
\<close>

theorem invalid_ppp_rejected:
  assumes "PPPIface_Validate ppp = Some err"
  shows "updatePPPConfig e (Inr ppp) s = (HttpError (''Failed to validate ppp '' @ err) 400, s)"
  using assms by (simp add: updatePPPConfig_def)

theorem invalid_ppp_rejected_witness:
  "updatePPPConfig (example_env True) (Inr (ppp_record ''ppp0'' ''abc'')) empty_state
     = (HttpError ''Failed to validate ppp VLAN field must contain numeric value'' 400, empty_state)
   \<and> calls empty_state = [] \<and> ppp_json empty_state = None"
  using invalid_ppp_rejected [OF Validate_abc, of "example_env True" empty_state]
  by (simp add: empty_state_def)

text \<open>
  Claim C6: for a WPA network entry that is otherwise valid (no newline in \<open>SSID\<close> and
  \<open>Password\<close>, a valid \<open>Priority\<close> and \<open>BSSID\<close> when present), \<open>Validate\<close> accepts the entry
  if and only if its \<open>KeyMgmt\<close> is a non-empty sequence of names from WPA-PSK,
  WPA-PSK-SHA256 and SAE separated by single spaces; the empty \<open>KeyMgmt\<close> and a \<open>KeyMgmt\<close>
  with any other part are rejected.
\<close>

theorem Validate_KeyMgmt:
  assumes "\<not> contains_newline (Password n)" and "\<not> contains_newline (SSID n)"
    and "Priority n = '''' \<or> \<not> isl (Atoi (Priority n))"
    and "BSSID n = '''' \<or> match_mac (BSSID n)"
  shows "(WPANetwork_Validate n = None) = key_mgmt_seq (KeyMgmt n)"
proof (cases "KeyMgmt n = ''''")
  case True
  with seq_nonempty [of "KeyMgmt n"] show ?thesis by (auto simp: WPANetwork_Validate_def)
next
  case False
  with assms have "(WPANetwork_Validate n = None) = list_all key_mgmt_name (Split (KeyMgmt n) CHR '' '')"
    by (auto simp: WPANetwork_Validate_def check_parts_None)
  also have "\<dots> = key_mgmt_seq (KeyMgmt n)"
    using seq_parts [of "KeyMgmt n"] parts_seq [of "KeyMgmt n" "CHR '' ''"] by blast
  finally show ?thesis .
qed

theorem Validate_KeyMgmt_witness:
  "WPANetwork_Validate (home_network ''WPA-PSK SAE'') = None \<and> key_mgmt_seq ''WPA-PSK SAE'' \<and>
   WPANetwork_Validate (home_network ''WPA-PSK  SAE'') = Some ''KeyMgmt field has invalid field '' \<and>
   \<not> key_mgmt_seq ''WPA-PSK  SAE'' \<and>
   WPANetwork_Validate (home_network ''WPA2'') = Some ''KeyMgmt field has invalid field WPA2'' \<and>
   \<not> key_mgmt_seq ''WPA2'' \<and>
   WPANetwork_Validate (home_network '''') \<noteq> None \<and> \<not> key_mgmt_seq ''''"
proof -
  have nl: "\<not> contains_newline (Password (home_network k))" "\<not> contains_newline (SSID (home_network k))" for k
    by (simp_all add: home_network_def contains_newline_def)
  have pr: "Priority (home_network k) = '''' \<or> \<not> isl (Atoi (Priority (home_network k)))" for k
    by (simp add: home_network_def)
  have bs: "BSSID (home_network k) = '''' \<or> match_mac (BSSID (home_network k))" for k
    by (simp add: home_network_def)
  have iff: "(WPANetwork_Validate (home_network k) = None) = key_mgmt_seq k" for k
    using Validate_KeyMgmt [OF nl pr bs, of k] by (simp add: home_network_def)
  have v1: "WPANetwork_Validate (home_network ''WPA-PSK SAE'') = None"
    by (simp add: WPANetwork_Validate_def home_network_def contains_newline_def Split.simps)
  have v2: "WPANetwork_Validate (home_network ''WPA-PSK  SAE'') = Some ''KeyMgmt field has invalid field ''"
    by (simp add: WPANetwork_Validate_def home_network_def contains_newline_def Split.simps)
  have v3: "WPANetwork_Validate (home_network ''WPA2'') = Some ''KeyMgmt field has invalid field WPA2''"
    by (simp add: WPANetwork_Validate_def home_network_def contains_newline_def Split.simps)
  have v4: "WPANetwork_Validate (home_network '''') \<noteq> None"
    by (simp add: WPANetwork_Validate_def home_network_def contains_newline_def)
  from v1 iff [of "''WPA-PSK SAE''"] have "key_mgmt_seq ''WPA-PSK SAE''" by simp
  moreover from v2 iff [of "''WPA-PSK  SAE''"] have "\<not> key_mgmt_seq ''WPA-PSK  SAE''" by simp
  moreover from v3 iff [of "''WPA2''"] have "\<not> key_mgmt_seq ''WPA2''" by simp
  moreover from v4 iff [of "''''"] have "\<not> key_mgmt_seq ''''" by simp
  ultimately show ?thesis using v1 v2 v3 v4 by simp
qed

text \<open>
  Claim C7: the chap-secrets file that \<open>writePPP\<close> writes has one line with the user name
  and the secret for every stored PPP record, whatever the record's \<open>Enabled\<close> flag; the
  WPA renderer skips the records whose \<open>Enabled\<close> is false: it does what it does on the
  enabled records alone.
\<close>

theorem chap_secrets_lists_every_record:
  assumes "write_error e (chap_secrets_path e) = None"
  shows \<open>files (snd (writePPP e interfaces config s)) (chap_secrets_path e) =
     Some (''# Note this is an autogenerated file\<newline>    # Secrets for authentication using CHAP\<newline>    # client        server  secret                  IP addresses\<newline>\<newline>    ''
      @ concat (map (\<lambda>ppp. ''\<newline>      "'' @ Username ppp @ ''" * "'' @ Secret ppp @ ''"\<newline>    '') (PPPs config))
      @ ''\<newline>    '') \<and>
    writeWPAs e interfaces wconfig s
      = writeWPAs e interfaces (wconfig\<lparr>WPAs := filter WPAIface.Enabled (WPAs wconfig)\<rparr>) s\<close>
proof -
  have \<open>files (snd (writePPP e interfaces config s)) (chap_secrets_path e) =
     Some (''# Note this is an autogenerated file\<newline>    # Secrets for authentication using CHAP\<newline>    # client        server  secret                  IP addresses\<newline>\<newline>    ''
      @ concat (map (\<lambda>ppp. ''\<newline>      "'' @ Username ppp @ ''" * "'' @ Secret ppp @ ''"\<newline>    '') (PPPs config))
      @ ''\<newline>    '')\<close>
  proof (cases "PPPs config")
    case Nil
    with assms show ?thesis by (simp add: writePPP_def Execute_chap WriteFile_def)
  next
    case (Cons p ps)
    with assms show ?thesis
      by (simp add: writePPP_def Execute_chap WriteFile_def writePPP_loop_fails del: writePPP_loop.simps(2))
  qed
  then show ?thesis by (simp add: writeWPAs_def writeWPAs_loop_filter)
qed

theorem chap_secrets_lists_every_record_witness:
  \<open>\<not> PPPIface.Enabled (ppp_record ''ppp0'' '''') \<and>
   files (snd (writePPP (example_env True) [] \<lparr>PPPs = [ppp_record ''ppp0'' '''']\<rparr> empty_state)) ''/etc/ppp/chap-secrets'' =
     Some ''# Note this is an autogenerated file\<newline>    # Secrets for authentication using CHAP\<newline>    # client        server  secret                  IP addresses\<newline>\<newline>    \<newline>      "alice" * "pw"\<newline>    \<newline>    '' \<and>
   writeWPAs (example_env True) [] \<lparr>WPAs = [wlan ''wlan1'' False ''SAE'']\<rparr> empty_state = (None, empty_state)\<close>
proof -
  have w: "write_error (example_env True) (chap_secrets_path (example_env True)) = None"
    by (simp add: example_env_def)
  from chap_secrets_lists_every_record [OF w, of "[]" "\<lparr>PPPs = [ppp_record ''ppp0'' '''']\<rparr>" empty_state
      "\<lparr>WPAs = [wlan ''wlan1'' False ''SAE'']\<rparr>"]
  show ?thesis
    by (simp add: chap_secrets_path_def example_env_def ppp_record_def wlan_def writeWPAs_def)
qed

text \<open>
  Claim C8: merging is idempotent.  For every stored collection, interface list and
  record, merging the record a second time with the same interface list gives the
  collection that merging it once gave, for the WPA and for the PPP collection, both for
  the merge itself and for the collection that \<open>insertWpaConfigAndSave\<close> and
  \<open>insertPPPConfigAndSave\<close> leave stored.
\<close>

theorem merge_idempotent:
  "merge_wpas ifs w (merge_wpas ifs w ws) = merge_wpas ifs w ws \<and>
   merge_ppps ifs p (merge_ppps ifs p ps) = merge_ppps ifs p ps \<and>
   wpa_json (snd (insertWpaConfigAndSave e ifs w (snd (insertWpaConfigAndSave e ifs w s))))
     = wpa_json (snd (insertWpaConfigAndSave e ifs w s)) \<and>
   ppp_json (snd (insertPPPConfigAndSave e ifs p (snd (insertPPPConfigAndSave e ifs p s))))
     = ppp_json (snd (insertPPPConfigAndSave e ifs p s))"
proof -
  have a: "wpa_json (snd (insertWpaConfigAndSave e ifs w (snd (insertWpaConfigAndSave e ifs w s))))
     = wpa_json (snd (insertWpaConfigAndSave e ifs w s))"
    by (cases "write_error e (WpaConfigPath e)") (simp_all add: insertWpa_json merge_wpas_idem)
  have b: "ppp_json (snd (insertPPPConfigAndSave e ifs p (snd (insertPPPConfigAndSave e ifs p s))))
     = ppp_json (snd (insertPPPConfigAndSave e ifs p s))"
    by (cases "write_error e (PPPConfigPath e)") (simp_all add: insertPPP_json merge_ppps_idem)
  from a b show ?thesis by (simp add: merge_wpas_idem merge_ppps_idem)
qed

theorem merge_idempotent_witness:
  "merge_wpas [] (wlan ''wlan1'' True ''SAE'')
     (merge_wpas [] (wlan ''wlan1'' True ''SAE'') [wlan ''wlan0'' True ''SAE''])
     = [wlan ''wlan0'' False ''SAE'', wlan ''wlan1'' True ''SAE''] \<and>
   merge_ppps [] (ppp_record ''ppp0'' '''') (merge_ppps [] (ppp_record ''ppp0'' '''') [])
     = [ppp_record ''ppp0'' '''']"
proof -
  have a: "merge_wpas [] (wlan ''wlan1'' True ''SAE'') [wlan ''wlan0'' True ''SAE'']
      = [wlan ''wlan0'' False ''SAE'', wlan ''wlan1'' True ''SAE'']"
    by (simp add: merge_wpas_def wlan_def)
  have b: "merge_ppps [] (ppp_record ''ppp0'' '''') [] = [ppp_record ''ppp0'' '''']"
    by (simp add: merge_ppps_def ppp_record_def)
  from merge_idempotent [of "[]" "wlan ''wlan1'' True ''SAE''" "[wlan ''wlan0'' True ''SAE'']"
      "ppp_record ''ppp0'' ''''" "[]"]
  show ?thesis by (simp only: a b simp_thms)
qed

text \<open>
  Claim C9: \<open>PPPIface.Validate\<close> checks \<open>Iface\<close> for emptiness only, while it checks
  \<open>Username\<close> and \<open>Secret\<close> for newlines, so an accepted PPP record can hold a newline in
  \<open>Iface\<close>, the field that is embedded in the generated provider file and in its path.
  On the code the first part holds and the second does not: the record with the \<open>Iface\<close>
  \<open>ppp0\<close>, newline, \<open>noauth\<close> is accepted (the same record with a newline in \<open>Username\<close> or
  in \<open>Secret\<close> is rejected) and stored, and then no provider file is generated for it:
  executing the provider template fails on the field \<open>BSSID\<close>, as for claim C2, before
  the file at the path built from \<open>Iface\<close> is written, and the handler answers with that
  error.
\<close>

theorem newline_iface_accepted_no_provider:
  "PPPIface_Validate (ppp_record ''ppp0\<newline>noauth'' '''') = None \<and>
   contains_newline (PPPIface.Iface (ppp_record ''ppp0\<newline>noauth'' '''')) \<and>
   PPPIface_Validate ((ppp_record ''ppp0\<newline>noauth'' '''')\<lparr>Username := ''alice\<newline>x''\<rparr>)
     = Some ''Username field contains newline characters'' \<and>
   PPPIface_Validate ((ppp_record ''ppp0\<newline>noauth'' '''')\<lparr>Secret := ''pw\<newline>x''\<rparr>)
     = Some ''Secret field contains newline characters'' \<and>
   fst (updatePPPConfig (example_env True) (Inr (ppp_record ''ppp0\<newline>noauth'' '''')) empty_state)
     = HttpError ''can not evaluate field BSSID'' 400 \<and>
   ppp_json (snd (updatePPPConfig (example_env True) (Inr (ppp_record ''ppp0\<newline>noauth'' '''')) empty_state))
     = Some \<lparr>PPPs = [ppp_record ''ppp0\<newline>noauth'' '''']\<rparr> \<and>
   files (snd (updatePPPConfig (example_env True) (Inr (ppp_record ''ppp0\<newline>noauth'' '''')) empty_state))
     (provider_path (example_env True) (ppp_record ''ppp0\<newline>noauth'' '''')) = None \<and>
   provider_path (example_env True) (ppp_record ''ppp0\<newline>noauth'' '''') = ''/etc/ppp/provider_ppp0\<newline>noauth''"
proof -
  let ?p = "ppp_record ''ppp0\<newline>noauth'' ''''"
  let ?e = "example_env True"
  let ?s1 = "log_call (UpdateInterfaceType ''ppp0\<newline>noauth'' ''Uplink'' ''ppp'' False) empty_state"
  let ?ifs = "[\<lparr>Name = ''ppp0\<newline>noauth'', Type = ''Uplink'', Subtype = ''ppp'', InterfaceConfig.Enabled = False\<rparr>]"
  let ?s2 = "?s1\<lparr>ppp_json := Some \<lparr>PPPs = [?p]\<rparr>\<rparr>"
  have n: "PPPIface.Iface ?p = ''ppp0\<newline>noauth''" "PPPIface.Enabled ?p = False"
    by (simp_all add: ppp_record_def)
  have u: "updateInterfaceType ?e ''ppp0\<newline>noauth'' ''Uplink'' ''ppp'' False = Inr ?ifs"
    by (simp add: example_env_def)
  have i: "insertPPPConfigAndSave ?e ?ifs ?p ?s1 = writePPP ?e ?ifs \<lparr>PPPs = [?p]\<rparr> ?s2"
    by (rule insertPPP_result) (simp_all add: example_env_def log_call_def empty_state_def n)
  have w: "fst (writePPP ?e ?ifs \<lparr>PPPs = [?p]\<rparr> ?s2) = Some ''can not evaluate field BSSID''"
    "ppp_json (snd (writePPP ?e ?ifs \<lparr>PPPs = [?p]\<rparr> ?s2)) = Some \<lparr>PPPs = [?p]\<rparr>"
    using writePPP_single [of ?e ?ifs ?p ?s2] by (simp_all add: example_env_def)
  have f: "files (snd (writePPP ?e ?ifs \<lparr>PPPs = [?p]\<rparr> ?s2)) (provider_path ?e ?p) = None"
    by (simp add: writePPP_no_provider provider_path_def chap_secrets_path_def example_env_def
        ppp_record_def log_call_def empty_state_def)
  obtain r s3 where R: "writePPP ?e ?ifs \<lparr>PPPs = [?p]\<rparr> ?s2 = (r, s3)"
    by (cases "writePPP ?e ?ifs \<lparr>PPPs = [?p]\<rparr> ?s2")
  with w f have r: "r = Some ''can not evaluate field BSSID''" and j: "ppp_json s3 = Some \<lparr>PPPs = [?p]\<rparr>"
    and f3: "files s3 (provider_path ?e ?p) = None" by simp_all
  have h: "updatePPPConfig ?e (Inr ?p) empty_state = (HttpError ''can not evaluate field BSSID'' 400, s3)"
    using i R r by (simp add: updatePPPConfig_def Validate_newline_iface n u Let_def)
  have v: "contains_newline (PPPIface.Iface ?p)" by (simp add: n contains_newline_def)
  have c: "PPPIface_Validate (?p\<lparr>Username := ''alice\<newline>x''\<rparr>) = Some ''Username field contains newline characters''"
    by (simp add: PPPIface_Validate_def ppp_record_def contains_newline_def)
  have d: "PPPIface_Validate (?p\<lparr>Secret := ''pw\<newline>x''\<rparr>) = Some ''Secret field contains newline characters''"
    by (simp add: PPPIface_Validate_def ppp_record_def contains_newline_def)
  have pp: "provider_path ?e ?p = ''/etc/ppp/provider_ppp0\<newline>noauth''"
    by (simp add: provider_path_def example_env_def n)
  from Validate_newline_iface v c d h j f3 pp show ?thesis by (simp only: fst_conv snd_conv simp_thms)
qed

text \<open>
  Claim C10: the pattern of the interface name check matches the empty string, so a WPA
  record with an empty \<open>Iface\<close> passes it.  When no stored record has an empty \<open>Iface\<close>,
  \<open>insertWpaConfigAndSave\<close> does not append such a record: the collection it stores is the
  stored one with every \<open>Enabled\<close> flag recomputed from the interface list.
\<close>

theorem empty_iface_only_refreshes:
  assumes "WPAIface.Iface new_wpa = ''''"
    and "list_all (\<lambda>wpa. WPAIface.Iface wpa \<noteq> '''') stored"
    and "wpa_json s = Some \<lparr>WPAs = stored\<rparr>"
    and "write_error e (WpaConfigPath e) = None"
  shows "match_iface (WPAIface.Iface new_wpa) \<and>
    wpa_json (snd (insertWpaConfigAndSave e interfaces new_wpa s)) =
      Some \<lparr>WPAs = map (\<lambda>wpa. wpa\<lparr>WPAIface.Enabled := isWifiUplinkIfaceEnabled (WPAIface.Iface wpa) interfaces\<rparr>) stored\<rparr>"
proof -
  from assms(1,2) have "\<not> list_ex (\<lambda>x. WPAIface.Iface x = WPAIface.Iface new_wpa) stored"
    by (induction stored) auto
  with assms(1) have "merge_wpas interfaces new_wpa stored =
     map (\<lambda>wpa. wpa\<lparr>WPAIface.Enabled := isWifiUplinkIfaceEnabled (WPAIface.Iface wpa) interfaces\<rparr>) stored"
    by (simp add: merge_wpas_def scan_wpas_eq)
  with assms show ?thesis by (simp add: insertWpa_json match_iface_empty)
qed

theorem empty_iface_only_refreshes_witness:
  "match_iface '''' \<and>
   wpa_json (snd (insertWpaConfigAndSave (example_env True) [] (wlan '''' True ''SAE'')
       (empty_state\<lparr>wpa_json := Some \<lparr>WPAs = [wlan ''wlan1'' True ''SAE'']\<rparr>\<rparr>)))
     = Some \<lparr>WPAs = [wlan ''wlan1'' False ''SAE'']\<rparr>"
proof -
  have a: "WPAIface.Iface (wlan '''' True ''SAE'') = ''''" by (simp add: wlan_def)
  have b: "list_all (\<lambda>wpa. WPAIface.Iface wpa \<noteq> '''') [wlan ''wlan1'' True ''SAE'']"
    by (simp add: wlan_def)
  have c: "wpa_json (empty_state\<lparr>wpa_json := Some \<lparr>WPAs = [wlan ''wlan1'' True ''SAE'']\<rparr>\<rparr>)
      = Some \<lparr>WPAs = [wlan ''wlan1'' True ''SAE'']\<rparr>" by simp
  have d: "write_error (example_env True) (WpaConfigPath (example_env True)) = None"
    by (simp add: example_env_def)
  from empty_iface_only_refreshes [OF a b c d, of "[]"] show ?thesis
    by (simp add: wlan_def)
qed

end
